theory Spec2Isabelle
  imports Complex_Main
begin

section \<open>Data model of the session coordinator (App component)\<close>

text \<open>
  The embedding follows the App component with route alternatives, the drawing mode
  and the simulated peer and, for the routing-failure policy, also \<open>fetchRoute\<close> of the
  single-route variant of the component (\<open>src/App.tsx\<close>).

  JavaScript numbers that hold coordinates, durations and distances are modelled as
  \<open>real\<close>: the program only stores, copies and compares them (\<open>===\<close> on the
  literals of the fixed path), it does no arithmetic on them.  Array indices are \<open>nat\<close>;
  the argument of \<open>deleteWaypoint\<close>, an arbitrary number in the source, is an \<open>int\<close>.
\<close>

type_synonym coord = "real \<times> real"

record Location =
  longitude :: real
  latitude :: real

record Blip =
  blip_id :: nat
  blip_longitude :: real
  blip_latitude :: real
  blip_text :: string

record RouteData =
  coordinates :: "coord list"
  duration :: real
  distance :: real

record Friend =
  friend_id :: nat
  name :: string
  avatar :: string
  status :: string
  lastMessage :: string
  unread :: nat
  location :: Location

record LngLat =
  lng :: real
  lat :: real

record WaypointSel = LngLat +
  index :: nat

subsection \<open>Module constants\<close>

definition initialFriends :: "Friend list" where
  "initialFriends =
    [\<lparr>friend_id = 1, name = ''Alice'',
      avatar = ''https://i.pravatar.cc/150?u=a042581f4e29026704d'', status = ''online'',
      lastMessage = ''See you on the map!'', unread = 2,
      location = \<lparr>longitude = -122.41, latitude = 37.78\<rparr>\<rparr>,
     \<lparr>friend_id = 2, name = ''Bob'',
      avatar = ''https://i.pravatar.cc/150?u=a042581f4e29026704e'', status = ''offline'',
      lastMessage = ''Let's catch up later.'', unread = 0,
      location = \<lparr>longitude = -122.42, latitude = 37.79\<rparr>\<rparr>]"

definition alicePath :: "coord list" where
  "alicePath =
    [(-122.41, 37.78), (-122.415, 37.782), (-122.42, 37.785), (-122.425, 37.782),
     (-122.42, 37.78), (-122.415, 37.778), (-122.41, 37.78)]"

definition initialBlips :: "Blip list" where
  "initialBlips =
    [\<lparr>blip_id = 1, blip_longitude = -122.45, blip_latitude = 37.77,
      blip_text = ''Cool graffiti''\<rparr>]"

section \<open>The routing service and the two fetch functions\<close>

text \<open>
  What the network can answer to one GET.  \<open>NetworkError\<close>: \<open>fetch\<close> rejects.
  \<open>HttpResponse ok status body\<close>: a response arrived; \<open>body\<close> is what
  \<open>res.json()\<close> gives:
  \<^item> \<open>BodyUnparsable\<close>: \<open>res.json()\<close> rejects, the text is not JSON;
  \<^item> \<open>BodyNull\<close>: \<open>res.json()\<close> resolves to \<open>null\<close>, so that reading \<open>data.routes\<close>
    throws a TypeError inside the \<open>try\<close> block;
  \<^item> \<open>BodyNoRoutes\<close>: the parsed value is not \<open>null\<close> and its \<open>routes\<close> member is
    \<open>undefined\<close> or \<open>null\<close>;
  \<^item> \<open>BodyRoutes rs\<close>: \<open>routes\<close> is the array \<open>rs\<close>.
  An element \<open>r\<close> of the array with \<open>geometry = None\<close> is one on which
  \<open>r.geometry.coordinates\<close> throws a TypeError (\<open>r\<close> is \<open>null\<close>, or it has no
  \<open>geometry\<close>).  As in the response format of the routing service, a \<open>routes\<close> member
  that is present is an array and a geometry that is present has its coordinate list.
\<close>

record raw_route =
  geometry :: "coord list option"
  raw_duration :: real
  raw_distance :: real

datatype json_body = BodyUnparsable | BodyNull | BodyNoRoutes | BodyRoutes "raw_route list"

datatype fetch_outcome = NetworkError | HttpResponse bool nat json_body

datatype js_error = FetchRejected | HttpError nat | JsonError | TypeError

text \<open>
  An async function with one suspension point: either it returns without touching the
  network, or it issues one request (keyed by the ordered coordinate list, which is all
  the URL depends on) and continues with the outcome.
\<close>

datatype 'a async = Return 'a | Fetch "coord list" "fetch_outcome \<Rightarrow> 'a"

fun await :: "'a async \<Rightarrow> fetch_outcome \<Rightarrow> 'a" where
  "await (Return a) outcome = a"
| "await (Fetch url k) outcome = k outcome"

fun issued :: "'a async \<Rightarrow> coord list list" where
  "issued (Return a) = []"
| "issued (Fetch url k) = [url]"

text \<open>\<open>data.routes.map(r => ({coordinates: r.geometry.coordinates, ...}))\<close>\<close>

fun convert_routes :: "raw_route list \<Rightarrow> js_error + RouteData list" where
  "convert_routes [] = Inr []"
| "convert_routes (r # rs) =
     (case geometry r of
        None \<Rightarrow> Inl TypeError
      | Some g \<Rightarrow>
          (case convert_routes rs of
             Inl e \<Rightarrow> Inl e
           | Inr ds \<Rightarrow>
               Inr (\<lparr>coordinates = g, duration = raw_duration r, distance = raw_distance r\<rparr> # ds)))"

text \<open>The \<open>try\<close> block of \<open>fetchRoutes\<close>; \<open>Inl\<close> is a thrown exception.\<close>

fun fetchRoutes_try :: "fetch_outcome \<Rightarrow> js_error + RouteData list" where
  "fetchRoutes_try NetworkError = Inl FetchRejected"
| "fetchRoutes_try (HttpResponse ok st body) =
     (if \<not> ok then Inl (HttpError st)
      else case body of
             BodyUnparsable \<Rightarrow> Inl JsonError
           | BodyNull \<Rightarrow> Inl TypeError
           | BodyNoRoutes \<Rightarrow> Inr []
           | BodyRoutes rs \<Rightarrow> convert_routes rs)"

definition fetchRoutes :: "coord list \<Rightarrow> RouteData list async" where
  "fetchRoutes wps =
     (if length wps < 2 then Return []
      else Fetch wps (\<lambda>outcome.
             case fetchRoutes_try outcome of Inl e \<Rightarrow> [] | Inr d \<Rightarrow> d))"

text \<open>
  \<open>fetchRoute\<close> of the single-route variant: it returns the geometry of the first route;
  its \<open>catch\<close> block returns the waypoints themselves ("Fallback to a straight line in
  case of an API error").
\<close>

fun fetchRoute_try :: "fetch_outcome \<Rightarrow> js_error + coord list" where
  "fetchRoute_try NetworkError = Inl FetchRejected"
| "fetchRoute_try (HttpResponse ok st body) =
     (if \<not> ok then Inl (HttpError st)
      else case body of
             BodyUnparsable \<Rightarrow> Inl JsonError
           | BodyNull \<Rightarrow> Inl TypeError
           | BodyNoRoutes \<Rightarrow> Inr []
           | BodyRoutes [] \<Rightarrow> Inr []
           | BodyRoutes (r # rs) \<Rightarrow>
               (case geometry r of None \<Rightarrow> Inl TypeError | Some g \<Rightarrow> Inr g))"

definition fetchRoute :: "coord list \<Rightarrow> coord list async" where
  "fetchRoute wps =
     (if length wps < 2 then Return []
      else Fetch wps (\<lambda>outcome.
             case fetchRoute_try outcome of Inl e \<Rightarrow> wps | Inr g \<Rightarrow> g))"

text \<open>
  A request has failed when \<open>fetch\<close> rejected, the status was not a success, the body
  could not be parsed, or the \<open>routes\<close> list is absent (the body is \<open>null\<close>, or it has
  no \<open>routes\<close>) or empty.
\<close>

fun request_failed :: "fetch_outcome \<Rightarrow> bool" where
  "request_failed NetworkError = True"
| "request_failed (HttpResponse ok st body) =
     (\<not> ok \<or> body = BodyUnparsable \<or> body = BodyNull \<or> body = BodyNoRoutes \<or>
      body = BodyRoutes [])"

section \<open>Session state\<close>

text \<open>
  The state variables of \<open>App\<close>, in the order of their \<open>useState\<close> calls, followed by
  the run-time of the route effect.  Every run of that effect that issues a request
  allocates a fresh \<open>isMounted\<close> variable, captured both by the response callback and by
  the cleanup function; the \<open>k\<close>-th entry of \<open>requests\<close> holds the variable of the
  \<open>k\<close>-th issued request, the waypoints it was issued for, and whether its promise has
  settled.  \<open>cleanup\<close> is the cleanup function React holds for the last run of the
  effect: \<open>Some k\<close> when that run issued request \<open>k\<close>, \<open>None\<close> when it returned early.
\<close>

record request =
  req_waypoints :: "coord list"
  isMounted :: bool
  settled :: bool

record app_state =
  friends :: "Friend list"
  blips :: "Blip list"
  waypoints :: "coord list"
  routes :: "RouteData list"
  selectedRouteIndex :: nat
  isLoadingRoute :: bool
  selection :: "LngLat option"
  selectedWaypoint :: "WaypointSel option"
  selectedBlip :: "Blip option"
  userLocation :: "coord option"
  isSidebarOpen :: bool
  is3D :: bool
  isDrawing :: bool
  drawnPolygon :: "coord list"
  requests :: "request list"
  cleanup :: "nat option"

section \<open>The simulator tick\<close>

text \<open>\<open>Array.prototype.findIndex\<close>: the first index whose element satisfies \<open>P\<close>, else -1.\<close>

fun findIndex :: "('a \<Rightarrow> bool) \<Rightarrow> 'a list \<Rightarrow> int" where
  "findIndex P [] = -1"
| "findIndex P (x # xs) =
     (if P x then 0 else (let r = findIndex P xs in if r < 0 then -1 else r + 1))"

text \<open>
  The updater passed to \<open>setFriends\<close> by the interval callback.  \<open>currentIndex + 1\<close> is
  never negative, so JavaScript's \<open>%\<close> agrees with \<open>mod\<close>, and \<open>alicePath\<close> is not
  empty, so the read of \<open>alicePath[nextIndex]\<close> is in range.
\<close>

definition currentIndex :: "Friend \<Rightarrow> int" where
  "currentIndex alice =
     findIndex (\<lambda>p. fst p = longitude (location alice) \<and> snd p = latitude (location alice))
       alicePath"

definition nextIndex :: "Friend \<Rightarrow> nat" where
  "nextIndex alice = nat ((currentIndex alice + 1) mod int (length alicePath))"

definition tick_friends :: "Friend list \<Rightarrow> Friend list" where
  "tick_friends prevFriends =
     (case find (\<lambda>f. friend_id f = 1) prevFriends of
        None \<Rightarrow> prevFriends
      | Some alice \<Rightarrow>
          (let nextLocation = \<lparr>longitude = fst (alicePath ! nextIndex alice),
                               latitude = snd (alicePath ! nextIndex alice)\<rparr>
           in map (\<lambda>f. if friend_id f = 1 then f\<lparr>location := nextLocation\<rparr> else f)
                prevFriends))"

definition tick :: "app_state \<Rightarrow> app_state" where
  "tick st = st\<lparr>friends := tick_friends (friends st)\<rparr>"

primrec ticks :: "nat \<Rightarrow> Friend list \<Rightarrow> Friend list" where
  "ticks 0 fs = fs"
| "ticks (Suc n) fs = tick_friends (ticks n fs)"

text \<open>The simulated peer as the tick itself finds it: the first friend with id 1.\<close>

definition alice_of :: "Friend list \<Rightarrow> Friend option" where
  "alice_of fs = find (\<lambda>f. friend_id f = 1) fs"

definition alice_coord :: "Friend list \<Rightarrow> coord option" where
  "alice_coord fs =
     map_option (\<lambda>f. (longitude (location f), latitude (location f))) (alice_of fs)"

section \<open>Event handlers\<close>

text \<open>
  Each handler is the state update its body performs; React applies the batched
  \<open>setState\<close> calls of one handler together.
\<close>

text \<open>\<open>handleMapClick\<close>; \<open>onMarker\<close> is \<open>target.closest('.maplibregl-marker')\<close>.\<close>

definition handleMapClick :: "real \<Rightarrow> real \<Rightarrow> bool \<Rightarrow> app_state \<Rightarrow> app_state" where
  "handleMapClick x y onMarker st =
     (if isDrawing st then st\<lparr>drawnPolygon := drawnPolygon st @ [(x, y)]\<rparr>
      else if onMarker then st
      else st\<lparr>selection := Some \<lparr>lng = x, lat = y\<rparr>,
               selectedWaypoint := None, selectedBlip := None\<rparr>)"

text \<open>The \<open>onClick\<close> of a blip marker and of the \<open>i\<close>-th waypoint marker.\<close>

definition blipMarkerClick :: "Blip \<Rightarrow> app_state \<Rightarrow> app_state" where
  "blipMarkerClick b st = st\<lparr>selectedBlip := Some b\<rparr>"

definition waypointMarkerClick :: "nat \<Rightarrow> app_state \<Rightarrow> app_state" where
  "waypointMarkerClick i st =
     (if i < length (waypoints st)
      then st\<lparr>selectedWaypoint :=
                Some \<lparr>lng = fst (waypoints st ! i), lat = snd (waypoints st ! i), index = i\<rparr>\<rparr>
      else st)"

definition addWaypoint :: "app_state \<Rightarrow> app_state" where
  "addWaypoint st =
     (case selection st of
        None \<Rightarrow> st
      | Some s \<Rightarrow> st\<lparr>waypoints := waypoints st @ [(lng s, lat s)], selection := None\<rparr>)"

text \<open>\<open>p.filter((_, idx) => idx !== i)\<close>\<close>

definition filter_index :: "int \<Rightarrow> 'a list \<Rightarrow> 'a list" where
  "filter_index i p = map snd (filter (\<lambda>(idx, _). int idx \<noteq> i) (enumerate 0 p))"

definition deleteWaypoint :: "int \<Rightarrow> app_state \<Rightarrow> app_state" where
  "deleteWaypoint i st =
     st\<lparr>waypoints := filter_index i (waypoints st), selectedWaypoint := None\<rparr>"

definition routeToBlip :: "app_state \<Rightarrow> app_state" where
  "routeToBlip st =
     (case (userLocation st, selectedBlip st) of
        (Some u, Some b) \<Rightarrow>
          st\<lparr>waypoints := [u, (blip_longitude b, blip_latitude b)], selectedBlip := None\<rparr>
      | _ \<Rightarrow> st)"

definition toggleDrawing :: "app_state \<Rightarrow> app_state" where
  "toggleDrawing st =
     (if isDrawing st then st\<lparr>isDrawing := \<not> isDrawing st\<rparr>
      else st\<lparr>isDrawing := \<not> isDrawing st, drawnPolygon := [], waypoints := []\<rparr>)"

text \<open>The "Clear All Waypoints" and "Clear Area" buttons and the route buttons.\<close>

definition clearAllWaypoints :: "app_state \<Rightarrow> app_state" where
  "clearAllWaypoints st = st\<lparr>waypoints := [], routes := []\<rparr>"

definition clearArea :: "app_state \<Rightarrow> app_state" where
  "clearArea st = st\<lparr>drawnPolygon := []\<rparr>"

definition selectRoute :: "nat \<Rightarrow> app_state \<Rightarrow> app_state" where
  "selectRoute i st = st\<lparr>selectedRouteIndex := i\<rparr>"

section \<open>The route effect\<close>

text \<open>
  \<open>useEffect(..., [waypoints])\<close>: after a render in which \<open>waypoints\<close> is a new array,
  React first calls the cleanup function of the previous run, if it returned one, and
  then runs the effect body.
\<close>

definition run_cleanup :: "app_state \<Rightarrow> app_state" where
  "run_cleanup st =
     (case cleanup st of
        None \<Rightarrow> st
      | Some k \<Rightarrow>
          st\<lparr>requests := (requests st)[k := (requests st ! k)\<lparr>isMounted := False\<rparr>]\<rparr>)"

definition effect_body :: "app_state \<Rightarrow> app_state" where
  "effect_body st =
     (if length (waypoints st) < 2 then st\<lparr>routes := [], cleanup := None\<rparr>
      else st\<lparr>isLoadingRoute := True,
               requests := requests st @
                 [\<lparr>req_waypoints = waypoints st, isMounted = True, settled = False\<rparr>],
               cleanup := Some (length (requests st))\<rparr>)"

definition route_effect :: "app_state \<Rightarrow> app_state" where
  "route_effect st = effect_body (run_cleanup st)"

text \<open>
  The promise of request \<open>k\<close> settles with the network's \<open>outcome\<close> and its \<open>then\<close>
  callback runs: \<open>if (isMounted) { setRoutes(d); setSelectedRouteIndex(0);
  setIsLoadingRoute(false); }\<close>.  A promise settles once.
\<close>

definition resolve :: "nat \<Rightarrow> fetch_outcome \<Rightarrow> app_state \<Rightarrow> app_state" where
  "resolve k outcome st =
     (if k < length (requests st) \<and> \<not> settled (requests st ! k) then
        (let r = requests st ! k;
             d = await (fetchRoutes (req_waypoints r)) outcome;
             st' = st\<lparr>requests := (requests st)[k := r\<lparr>settled := True\<rparr>]\<rparr>
         in if isMounted r
            then st'\<lparr>routes := d, selectedRouteIndex := 0, isLoadingRoute := False\<rparr>
            else st')
      else st)"

text \<open>A waypoint change as the effect sees it: the new array, then the effect.\<close>

definition setWaypoints :: "coord list \<Rightarrow> app_state \<Rightarrow> app_state" where
  "setWaypoints wps st = route_effect (st\<lparr>waypoints := wps\<rparr>)"

text \<open>
  The events of a session.  A handler that calls \<open>setWaypoints\<close> makes a new array, so
  the route effect runs after it.  \<open>AddBlip b\<close> stands for the "Add Blip" button, with
  the object it builds as parameter.  A marker or a button can be clicked only while it
  is rendered: a blip marker for a blip of \<open>blips\<close>, a route button for an index of
  \<open>routes\<close>, the two clear buttons outside the drawing mode and while there is
  something to clear.  \<open>DeleteWaypoint i\<close> is the command \<open>deleteWaypoint(i)\<close> for any
  index; the popup issues it with the index of the selected waypoint.
\<close>

datatype event =
    MapClick real real bool
  | BlipMarkerClick Blip
  | WaypointMarkerClick nat
  | CloseSelection
  | CloseSelectedWaypoint
  | CloseSelectedBlip
  | AddBlip Blip
  | AddWaypoint
  | DeleteWaypoint int
  | RouteToBlip
  | ToggleDrawing
  | ClearAllWaypoints
  | ClearArea
  | SelectRoute nat
  | Locate coord
  | Toggle3D
  | SetSidebar bool
  | Tick
  | Resolve nat fetch_outcome

fun step :: "event \<Rightarrow> app_state \<Rightarrow> app_state" where
  "step (MapClick x y onMarker) st = handleMapClick x y onMarker st"
| "step (BlipMarkerClick b) st = (if b \<in> set (blips st) then blipMarkerClick b st else st)"
| "step (WaypointMarkerClick i) st = waypointMarkerClick i st"
| "step CloseSelection st = st\<lparr>selection := None\<rparr>"
| "step CloseSelectedWaypoint st = st\<lparr>selectedWaypoint := None\<rparr>"
| "step CloseSelectedBlip st = st\<lparr>selectedBlip := None\<rparr>"
| "step (AddBlip b) st =
     (if selection st = None then st else st\<lparr>blips := blips st @ [b], selection := None\<rparr>)"
| "step AddWaypoint st =
     (if selection st = None then st else route_effect (addWaypoint st))"
| "step (DeleteWaypoint i) st = route_effect (deleteWaypoint i st)"
| "step RouteToBlip st =
     (if userLocation st = None \<or> selectedBlip st = None then st
      else route_effect (routeToBlip st))"
| "step ToggleDrawing st =
     (if isDrawing st then toggleDrawing st else route_effect (toggleDrawing st))"
| "step ClearAllWaypoints st =
     (if waypoints st \<noteq> [] \<and> \<not> isDrawing st then route_effect (clearAllWaypoints st)
      else st)"
| "step ClearArea st =
     (if drawnPolygon st \<noteq> [] \<and> \<not> isDrawing st then clearArea st else st)"
| "step (SelectRoute i) st = (if i < length (routes st) then selectRoute i st else st)"
| "step (Locate c) st = st\<lparr>userLocation := Some c\<rparr>"
| "step Toggle3D st = st\<lparr>is3D := \<not> is3D st\<rparr>"
| "step (SetSidebar b) st = st\<lparr>isSidebarOpen := b\<rparr>"
| "step Tick st = tick st"
| "step (Resolve k outcome) st = resolve k outcome st"

fun run :: "event list \<Rightarrow> app_state \<Rightarrow> app_state" where
  "run [] st = st"
| "run (e # es) st = run es (step e st)"

text \<open>The state after mounting: the initial values, and the first run of the effect.\<close>

definition initial_state :: app_state where
  "initial_state =
     route_effect
       \<lparr>friends = initialFriends, blips = initialBlips, waypoints = [], routes = [],
        selectedRouteIndex = 0, isLoadingRoute = False, selection = None,
        selectedWaypoint = None, selectedBlip = None, userLocation = None,
        isSidebarOpen = False, is3D = False, isDrawing = False, drawnPolygon = [],
        requests = [], cleanup = None\<rparr>"

section \<open>Derived notions and sample inputs\<close>

text \<open>
  A request of the current generation is outstanding when the last run of the effect
  issued one and its promise has not settled yet.
\<close>

definition outstanding_current :: "app_state \<Rightarrow> bool" where
  "outstanding_current st =
     (case cleanup st of
        None \<Rightarrow> False
      | Some k \<Rightarrow> k < length (requests st) \<and> \<not> settled (requests st ! k))"

text \<open>How many of the three selection variables are set.\<close>

definition active_selections :: "app_state \<Rightarrow> nat" where
  "active_selections st =
     (if selection st = None then 0 else 1) +
     (if selectedWaypoint st = None then 0 else 1) +
     (if selectedBlip st = None then 0 else 1)"

text \<open>
  A request whose \<open>isMounted\<close> variable has been cleared and is no longer the one the
  pending cleanup function refers to.
\<close>

definition superseded :: "nat \<Rightarrow> app_state \<Rightarrow> bool" where
  "superseded k st =
     (k < length (requests st) \<and> \<not> isMounted (requests st ! k) \<and> cleanup st \<noteq> Some k)"

text \<open>
  The failed requests on which the \<open>try\<close> block throws: network error, bad status,
  unparsable body, \<open>null\<close> body.
\<close>

fun request_threw :: "fetch_outcome \<Rightarrow> bool" where
  "request_threw NetworkError = True"
| "request_threw (HttpResponse ok st body) =
     (\<not> ok \<or> body = BodyUnparsable \<or> body = BodyNull)"

definition wpA :: coord where "wpA = (-122.41, 37.78)"
definition wpB :: coord where "wpB = (-122.42, 37.79)"
definition wpC :: coord where "wpC = (-122.43, 37.80)"

definition route_AB :: raw_route where
  "route_AB = \<lparr>geometry = Some [wpA, wpB], raw_duration = 600, raw_distance = 5000\<rparr>"

definition route_AB_alt :: raw_route where
  "route_AB_alt = \<lparr>geometry = Some [wpA, wpC, wpB], raw_duration = 720, raw_distance = 6100\<rparr>"

definition route_ABC :: raw_route where
  "route_ABC = \<lparr>geometry = Some [wpA, wpB, wpC], raw_duration = 900, raw_distance = 7000\<rparr>"

definition one_route :: fetch_outcome where
  "one_route = HttpResponse True 200 (BodyRoutes [route_AB])"

definition two_routes :: fetch_outcome where
  "two_routes = HttpResponse True 200 (BodyRoutes [route_AB, route_AB_alt])"

definition abc_route :: fetch_outcome where
  "abc_route = HttpResponse True 200 (BodyRoutes [route_ABC])"

definition graffiti :: Blip where
  "graffiti = \<lparr>blip_id = 1, blip_longitude = -122.45, blip_latitude = 37.77,
                blip_text = ''Cool graffiti''\<rparr>"

text \<open>Sample sessions, built from the initial state by events.\<close>

definition place :: "coord \<Rightarrow> event list" where
  "place c = [MapClick (fst c) (snd c) False, AddWaypoint]"

definition loaded_AB :: app_state where
  "loaded_AB = run (place wpA @ place wpB) initial_state"


definition point_selected :: app_state where
  "point_selected = run [MapClick (-122.40) 37.80 False] initial_state"

definition point_then_blip :: app_state where
  "point_then_blip =
     run [MapClick (-122.40) 37.80 False, BlipMarkerClick graffiti] initial_state"

definition cleared_while_loading :: app_state where
  "cleared_while_loading = step ClearAllWaypoints loaded_AB"

definition cleared_after_choice :: app_state where
  "cleared_after_choice =
     run [Resolve 0 two_routes, SelectRoute 1, ClearAllWaypoints] loaded_AB"

definition drawn_two :: app_state where
  "drawn_two =
     run [ToggleDrawing, MapClick (fst wpA) (snd wpA) False, MapClick (fst wpB) (snd wpB) False]
       loaded_AB"

section \<open>Auxiliary lemmas\<close>

lemmas session_defs =
  initial_state_def route_effect_def effect_body_def run_cleanup_def resolve_def
  setWaypoints_def handleMapClick_def blipMarkerClick_def waypointMarkerClick_def
  addWaypoint_def deleteWaypoint_def filter_index_def toggleDrawing_def clearAllWaypoints_def
  clearArea_def selectRoute_def place_def fetchRoutes_def initialBlips_def

lemmas sample_defs =
  wpA_def wpB_def wpC_def route_AB_def route_AB_alt_def route_ABC_def one_route_def
  two_routes_def abc_route_def graffiti_def

subsection \<open>Removing one index from a list\<close>








subsection \<open>The delete command: handler and route effect\<close>





subsection \<open>Superseded requests stay superseded\<close>

lemma superseded_route_effect:
  assumes "superseded k st" "requests st' = requests st" "cleanup st' = cleanup st"
  shows "superseded k (route_effect st')"
  using assms
  by (auto simp: superseded_def route_effect_def effect_body_def run_cleanup_def nth_append
      nth_list_update split: option.splits)

lemma superseded_resolve:
  "superseded k st \<Longrightarrow> superseded k (resolve j outcome st)"
  by (auto simp: superseded_def resolve_def Let_def nth_list_update)

lemma superseded_step: "superseded k st \<Longrightarrow> superseded k (step e st)"
proof (cases e)
  case (Resolve j outcome)
  then show "superseded k st \<Longrightarrow> ?thesis" by (simp add: superseded_resolve)
qed (auto intro!: superseded_route_effect
      simp: handleMapClick_def blipMarkerClick_def waypointMarkerClick_def addWaypoint_def
        deleteWaypoint_def routeToBlip_def toggleDrawing_def clearAllWaypoints_def
        clearArea_def selectRoute_def tick_def
      split: option.splits,
     auto simp: superseded_def)

lemma superseded_run: "superseded k st \<Longrightarrow> superseded k (run es st)"
  by (induction es arbitrary: st) (simp_all add: superseded_step)

lemma superseded_inert:
  "superseded k st \<Longrightarrow> resolve k outcome st = st\<lparr>requests := requests (resolve k outcome st)\<rparr>"
  by (simp add: superseded_def resolve_def Let_def)

lemma superseded_after_change:
  "2 \<le> length G1 \<Longrightarrow>
   superseded (length (requests s0)) (setWaypoints G2 (setWaypoints G1 s0))"
  by (auto simp: superseded_def setWaypoints_def route_effect_def effect_body_def
      run_cleanup_def nth_append split: option.splits)

lemma routes_resolve:
  "routes (resolve k outcome st) =
     (if k < length (requests st) \<and> \<not> settled (requests st ! k) \<and> isMounted (requests st ! k)
      then await (fetchRoutes (req_waypoints (requests st ! k))) outcome else routes st)"
  by (simp add: resolve_def Let_def)

lemma requests_resolve:
  "requests (resolve k outcome st) =
     (if k < length (requests st) \<and> \<not> settled (requests st ! k)
      then (requests st)[k := (requests st ! k)\<lparr>settled := True\<rparr>] else requests st)"
  by (simp add: resolve_def Let_def)

lemma requests_after_two_changes:
  assumes "2 \<le> length G1"
  shows "requests (setWaypoints G2 (setWaypoints G1 s0)) ! length (requests s0) =
           \<lparr>req_waypoints = G1, isMounted = False, settled = False\<rparr>"
    and "2 \<le> length G2 \<Longrightarrow>
         requests (setWaypoints G2 (setWaypoints G1 s0)) ! Suc (length (requests s0)) =
           \<lparr>req_waypoints = G2, isMounted = True, settled = False\<rparr>"
    and "2 \<le> length G2 \<Longrightarrow>
         length (requests (setWaypoints G2 (setWaypoints G1 s0))) = length (requests s0) + 2"
    and "length G2 < 2 \<Longrightarrow> routes (setWaypoints G2 (setWaypoints G1 s0)) = []"
  using assms
  by (simp_all add: setWaypoints_def route_effect_def effect_body_def
      run_cleanup_def nth_append split: option.splits)

lemma current_response_applied:
  assumes "2 \<le> length G1" "2 \<le> length G2"
  shows "routes (resolve (Suc (length (requests s0))) o2
           (resolve (length (requests s0)) o1 (setWaypoints G2 (setWaypoints G1 s0)))) =
         await (fetchRoutes G2) o2"
    and "routes (resolve (length (requests s0)) o1
           (resolve (Suc (length (requests s0))) o2 (setWaypoints G2 (setWaypoints G1 s0)))) =
         await (fetchRoutes G2) o2"
proof -
  note f = requests_after_two_changes(1)[OF assms(1), of G2 s0]
    requests_after_two_changes(2,3)[OF assms(1) assms(2), of s0]
  show "routes (resolve (Suc (length (requests s0))) o2
           (resolve (length (requests s0)) o1 (setWaypoints G2 (setWaypoints G1 s0)))) =
         await (fetchRoutes G2) o2"
    by (simp add: routes_resolve requests_resolve f)
  show "routes (resolve (length (requests s0)) o1
           (resolve (Suc (length (requests s0))) o2 (setWaypoints G2 (setWaypoints G1 s0)))) =
         await (fetchRoutes G2) o2"
    by (simp add: routes_resolve requests_resolve f)
qed

lemma short_change_clears:
  assumes "2 \<le> length G1" "length G2 < 2"
  shows "routes (resolve (length (requests s0)) o1 (setWaypoints G2 (setWaypoints G1 s0))) = []"
  by (simp add: routes_resolve requests_after_two_changes(1,4)[OF assms(1)] assms(2))

subsection \<open>The fetch functions on a failed request\<close>

lemma fetchRoutes_failed: "request_failed outcome \<Longrightarrow> await (fetchRoutes wps) outcome = []"
  by (cases outcome) (auto simp: fetchRoutes_def)

lemma fetchRoute_failed:
  "request_failed outcome \<Longrightarrow>
   await (fetchRoute wps) outcome = (if request_threw outcome \<and> 2 \<le> length wps then wps else [])"
  by (cases outcome) (auto simp: fetchRoute_def)

subsection \<open>One tick on the fixed path\<close>

lemma find_map_friends:
  "find P (map f xs) = map_option f (find (\<lambda>x. P (f x)) xs)"
  by (induction xs) auto

lemma alice_of_tick:
  "alice_of fs = Some a \<Longrightarrow>
   alice_of (tick_friends fs) =
     Some (a\<lparr>location := \<lparr>longitude = fst (alicePath ! nextIndex a),
                            latitude = snd (alicePath ! nextIndex a)\<rparr>\<rparr>)"
proof -
  assume a: "alice_of fs = Some a"
  define l :: Location where "l = \<lparr>longitude = fst (alicePath ! nextIndex a),
                        latitude = snd (alicePath ! nextIndex a)\<rparr>"
  define f where "f = (\<lambda>x::Friend. if friend_id x = 1 then x\<lparr>location := l\<rparr> else x)"
  have p: "(\<lambda>x. friend_id (f x) = 1) = (\<lambda>x. friend_id x = 1)"
    by (auto simp: f_def)
  have id1: "friend_id a = 1"
    using a by (auto simp: alice_of_def find_Some_iff)
  have t: "tick_friends fs = map f fs"
    using a by (simp add: alice_of_def tick_friends_def Let_def f_def l_def)
  have "alice_of (map f fs) = map_option f (find (\<lambda>x. friend_id (f x) = 1) fs)"
    unfolding alice_of_def by (rule find_map_friends)
  also have "\<dots> = map_option f (alice_of fs)"
    by (simp only: p alice_of_def)
  also have "\<dots> = Some (a\<lparr>location := l\<rparr>)"
    using a id1 by (simp add: f_def)
  finally show ?thesis by (simp add: t l_def)
qed

lemma nextIndex_on_path:
  assumes "s < 7" "longitude (location a) = fst (alicePath ! s)"
    "latitude (location a) = snd (alicePath ! s)"
  shows "nextIndex a = Suc (s mod 6)"
proof -
  from assms(1) consider "s = 0" | "s = 1" | "s = 2" | "s = 3" | "s = 4" | "s = 5" | "s = 6"
    by linarith
  then show ?thesis
    using assms(2,3)
    by cases (simp_all add: nextIndex_def currentIndex_def alicePath_def)
qed

lemma currentIndex_on_path:
  assumes "s < 7" "longitude (location a) = fst (alicePath ! s)"
    "latitude (location a) = snd (alicePath ! s)"
  shows "currentIndex a = int (s mod 6)"
proof -
  from assms(1) consider "s = 0" | "s = 1" | "s = 2" | "s = 3" | "s = 4" | "s = 5" | "s = 6"
    by linarith
  then show ?thesis
    using assms(2,3)
    by cases (simp_all add: currentIndex_def alicePath_def)
qed

lemma alicePath_closed: "alicePath ! 6 = alicePath ! 0"
  by (simp add: alicePath_def)

lemma alicePath_wrap: "s < 7 \<Longrightarrow> alicePath ! Suc (s mod 6) = alicePath ! (Suc s mod 6)"
proof -
  assume "s < 7"
  then consider "s = 0" | "s = 1" | "s = 2" | "s = 3" | "s = 4" | "s = 5" | "s = 6"
    by linarith
  then show ?thesis by cases (simp_all add: alicePath_def)
qed

lemma alice_coord_tick:
  assumes "s < 7" "alice_coord fs = Some (alicePath ! s)"
  shows "alice_coord (tick_friends fs) = Some (alicePath ! (Suc s mod 6))"
proof -
  from assms(2) obtain a where a: "alice_of fs = Some a"
    "longitude (location a) = fst (alicePath ! s)" "latitude (location a) = snd (alicePath ! s)"
    by (auto simp: alice_coord_def prod_eq_iff)
  have "nextIndex a = Suc (s mod 6)"
    using nextIndex_on_path[OF assms(1) a(2,3)] .
  then show ?thesis
    using alice_of_tick[OF a(1)] alicePath_wrap[OF assms(1)]
    by (simp add: alice_coord_def)
qed

lemma alice_coord_ticks:
  assumes "s < 7" "alice_coord fs = Some (alicePath ! s)"
  shows "alice_coord (ticks N fs) = Some (alicePath ! ((s + N) mod 6))"
proof (induction N)
  case 0
  from assms(1) consider "s = 6" | "s < 6" by linarith
  then show ?case using assms(2) by cases (simp_all add: alicePath_closed)
next
  case (Suc N)
  have "(s + N) mod 6 < 7" by simp
  from alice_coord_tick[OF this Suc.IH]
  show ?case by (simp add: mod_Suc_eq)
qed

lemma tick_friends_nth:
  "i < length fs \<Longrightarrow>
     tick_friends fs ! i =
       (if friend_id (fs ! i) = 1 then (fs ! i)\<lparr>location := location (tick_friends fs ! i)\<rparr>
        else fs ! i)"
  by (simp add: tick_friends_def Let_def split: option.splits)

section \<open>The claims\<close>

subsection \<open>C1: a superseded response is discarded\<close>

text \<open>
  Claim C1.  Let a route request be issued for the waypoint sequence \<open>G1\<close> (two or more
  waypoints, request number \<open>k1\<close>), and let the sequence change to \<open>G2\<close> before the
  response to \<open>G1\<close> arrives.  Then, after any further events \<open>es\<close>, the arrival of the
  response to \<open>G1\<close> changes nothing but the bookkeeping of that request: routes, active
  index, loading flag and everything else are as before.  If \<open>G2\<close> has fewer than two
  waypoints the routes are empty; otherwise, in both arrival orders of the two responses,
  the routes are exactly what \<open>fetchRoutes\<close> returns for \<open>G2\<close>.
\<close>

theorem superseded_response_never_applied:
  assumes "2 \<le> length G1"
  shows "let k1 = length (requests s0);
             s2 = setWaypoints G2 (setWaypoints G1 s0);
             s = run es s2
         in resolve k1 o1 s = s\<lparr>requests := requests (resolve k1 o1 s)\<rparr> \<and>
            (length G2 < 2 \<longrightarrow> routes (resolve k1 o1 s2) = []) \<and>
            (2 \<le> length G2 \<longrightarrow>
               routes (resolve (Suc k1) o2 (resolve k1 o1 s2)) = await (fetchRoutes G2) o2 \<and>
               routes (resolve k1 o1 (resolve (Suc k1) o2 s2)) = await (fetchRoutes G2) o2)"
proof -
  have "superseded (length (requests s0)) (run es (setWaypoints G2 (setWaypoints G1 s0)))"
    using superseded_after_change[OF assms] by (rule superseded_run)
  from superseded_inert[OF this]
  show ?thesis
    unfolding Let_def
    using current_response_applied[OF assms] short_change_clears[OF assms]
    by blast
qed

text \<open>
  Witness for C1, on the sample session: \<open>[A, B, C]\<close> then \<open>[A, B]\<close> (both
  arrival orders), and \<open>[A, B, C]\<close> then \<open>[A]\<close>.
\<close>

theorem superseded_response_never_applied_witness:
  "2 \<le> length [wpA, wpB, wpC] \<and> 2 \<le> length [wpA, wpB] \<and> length [wpA] < 2 \<and>
   routes (resolve 1 one_route (resolve 0 abc_route
     (setWaypoints [wpA, wpB] (setWaypoints [wpA, wpB, wpC] initial_state)))) =
     [\<lparr>coordinates = [wpA, wpB], duration = 600, distance = 5000\<rparr>] \<and>
   routes (resolve 0 abc_route (resolve 1 one_route
     (setWaypoints [wpA, wpB] (setWaypoints [wpA, wpB, wpC] initial_state)))) =
     [\<lparr>coordinates = [wpA, wpB], duration = 600, distance = 5000\<rparr>] \<and>
   routes (resolve 0 abc_route
     (setWaypoints [wpA] (setWaypoints [wpA, wpB, wpC] initial_state))) = []"
proof -
  have h: "2 \<le> length [wpA, wpB, wpC]" by simp
  have n: "length (requests initial_state) = 0"
    by (simp add: initial_state_def route_effect_def effect_body_def run_cleanup_def)
  have r: "await (fetchRoutes [wpA, wpB]) one_route =
     [\<lparr>coordinates = [wpA, wpB], duration = 600, distance = 5000\<rparr>]"
    by (simp add: fetchRoutes_def one_route_def route_AB_def)
  show ?thesis
    using superseded_response_never_applied[OF h, of initial_state "[wpA, wpB]" "[]"
        abc_route one_route]
      superseded_response_never_applied[OF h, of initial_state "[wpA]" "[]"
        abc_route one_route]
    by (simp add: Let_def n r)
qed

subsection \<open>C2: the three selection variables\<close>

text \<open>
  Claim C2 says that at most one selection variant is active and that every selection
  assignment discards the previous one.  \<open>handleMapClick\<close> does clear the other two
  variables, but the marker handlers only set their own: after a click on the map and
  then a click on the marker of the initial blip, both the point selection and the blip
  selection are set.
\<close>

theorem selection_overlap:
  "selection point_then_blip = Some \<lparr>lng = -122.40, lat = 37.80\<rparr> \<and>
   selectedBlip point_then_blip = Some graffiti \<and>
   active_selections point_then_blip = 2"
  by (simp add: point_then_blip_def active_selections_def session_defs sample_defs)

subsection \<open>C3: deleteWaypoint\<close>




subsection \<open>C4: toggleDrawing\<close>

text \<open>
  Claim C4, as amended.  Toggling the drawing mode from off empties the waypoint
  sequence and the drawn area (and, through the route effect, the routes); toggling from
  on leaves the drawn area and the waypoints as they are.  In both directions the three
  selection variables are unchanged.
\<close>

theorem toggleDrawing_effect:
  "(\<not> isDrawing st \<longrightarrow>
      isDrawing (step ToggleDrawing st) \<and>
      waypoints (step ToggleDrawing st) = [] \<and>
      drawnPolygon (step ToggleDrawing st) = [] \<and>
      routes (step ToggleDrawing st) = []) \<and>
   (isDrawing st \<longrightarrow>
      \<not> isDrawing (step ToggleDrawing st) \<and>
      drawnPolygon (step ToggleDrawing st) = drawnPolygon st \<and>
      waypoints (step ToggleDrawing st) = waypoints st) \<and>
   selection (step ToggleDrawing st) = selection st \<and>
   selectedWaypoint (step ToggleDrawing st) = selectedWaypoint st \<and>
   selectedBlip (step ToggleDrawing st) = selectedBlip st"
  by (simp add: toggleDrawing_def route_effect_def effect_body_def run_cleanup_def
      split: option.splits)

text \<open>
  Witness for C4: entering the drawing mode with two waypoints placed, and leaving it
  after two clicks.
\<close>

theorem toggleDrawing_effect_witness:
  "\<not> isDrawing loaded_AB \<and> isDrawing drawn_two \<and>
   waypoints loaded_AB = [wpA, wpB] \<and>
   waypoints (step ToggleDrawing loaded_AB) = [] \<and>
   drawnPolygon (step ToggleDrawing loaded_AB) = [] \<and>
   drawnPolygon (step ToggleDrawing drawn_two) = [wpA, wpB] \<and>
   waypoints (step ToggleDrawing drawn_two) = [] \<and>
   \<not> isDrawing (step ToggleDrawing drawn_two)"
proof -
  have a: "\<not> isDrawing loaded_AB" "waypoints loaded_AB = [wpA, wpB]"
    by (simp_all add: loaded_AB_def session_defs sample_defs)
  have b: "isDrawing drawn_two" "drawnPolygon drawn_two = [wpA, wpB]" "waypoints drawn_two = []"
    by (simp_all add: drawn_two_def loaded_AB_def session_defs sample_defs)
  show ?thesis
    using a b toggleDrawing_effect[of loaded_AB] toggleDrawing_effect[of drawn_two]
    by simp
qed

text \<open>
  Counterexample to C4 as stated: with a point selected and the drawing mode off,
  \<open>toggleDrawing\<close> leaves the point selected.
\<close>

theorem toggleDrawing_counterexample:
  "\<not> isDrawing point_selected \<and>
   selection (step ToggleDrawing point_selected) = Some \<lparr>lng = -122.40, lat = 37.80\<rparr> \<and>
   selection (step ToggleDrawing point_selected) \<noteq> None"
  by (simp add: point_selected_def session_defs)

subsection \<open>C5: a failed route request\<close>

text \<open>
  Claim C5, as amended.  For a failed request, \<open>fetchRoutes\<close> returns the empty list,
  and the callback of a request that is still current stores the empty list, resets the
  active index and ends loading.  \<open>fetchRoute\<close> of the single-route variant returns
  the empty route when the body is not \<open>null\<close> and its routes list is absent or empty,
  but when the \<open>try\<close> block throws (network error, bad status, unparsable body,
  \<open>null\<close> body) it returns the waypoint sequence itself, for two or more waypoints.
  Both functions return a value in every case.
\<close>

theorem failed_request_result:
  assumes "request_failed outcome"
  shows "await (fetchRoutes wps) outcome = [] \<and>
         (k < length (requests st) \<and> \<not> settled (requests st ! k) \<and> isMounted (requests st ! k) \<longrightarrow>
            routes (resolve k outcome st) = [] \<and>
            selectedRouteIndex (resolve k outcome st) = 0 \<and>
            \<not> isLoadingRoute (resolve k outcome st)) \<and>
         await (fetchRoute wps) outcome =
           (if request_threw outcome \<and> 2 \<le> length wps then wps else [])"
  using fetchRoutes_failed[OF assms] fetchRoute_failed[OF assms]
  by (simp add: resolve_def Let_def)

text \<open>
  Witness for C5: for the request issued for \<open>[A, B]\<close>, a network error, a success
  response whose body is \<open>null\<close>, and one whose body has no routes.
\<close>

theorem failed_request_result_witness:
  "request_failed NetworkError \<and>
   request_failed (HttpResponse True 200 BodyNull) \<and>
   request_failed (HttpResponse True 200 BodyNoRoutes) \<and>
   (0 < length (requests loaded_AB) \<and> \<not> settled (requests loaded_AB ! 0) \<and>
    isMounted (requests loaded_AB ! 0)) \<and>
   await (fetchRoutes [wpA, wpB]) NetworkError = [] \<and>
   routes (resolve 0 NetworkError loaded_AB) = [] \<and>
   selectedRouteIndex (resolve 0 NetworkError loaded_AB) = 0 \<and>
   \<not> isLoadingRoute (resolve 0 NetworkError loaded_AB) \<and>
   await (fetchRoute [wpA, wpB]) NetworkError = [wpA, wpB] \<and>
   await (fetchRoutes [wpA, wpB]) (HttpResponse True 200 BodyNull) = [] \<and>
   await (fetchRoute [wpA, wpB]) (HttpResponse True 200 BodyNull) = [wpA, wpB] \<and>
   await (fetchRoute [wpA, wpB]) (HttpResponse True 200 BodyNoRoutes) = []"
proof -
  have h: "request_failed NetworkError" by simp
  have h1: "request_failed (HttpResponse True 200 BodyNull)" by simp
  have h2: "request_failed (HttpResponse True 200 BodyNoRoutes)" by simp
  have p: "0 < length (requests loaded_AB) \<and> \<not> settled (requests loaded_AB ! 0) \<and>
    isMounted (requests loaded_AB ! 0)"
    by (simp add: loaded_AB_def place_def wpA_def wpB_def addWaypoint_def handleMapClick_def
        route_effect_def effect_body_def run_cleanup_def initial_state_def)
  show ?thesis
    using h h1 h2 p failed_request_result[OF h, of "[wpA, wpB]" 0 loaded_AB]
      failed_request_result[OF h1, of "[wpA, wpB]" 0 loaded_AB]
      failed_request_result[OF h2, of "[wpA, wpB]" 0 loaded_AB]
    by simp
qed

text \<open>
  Counterexample to C5 as stated: on a network error \<open>fetchRoute [A, B]\<close> does not
  return the empty route.
\<close>

theorem fetchRoute_fallback_counterexample:
  "request_failed NetworkError \<and> await (fetchRoute [wpA, wpB]) NetworkError \<noteq> []"
  by (simp add: fetchRoute_def)

subsection \<open>C6: the simulated peer after N ticks\<close>

text \<open>
  Claim C6, as amended.  The peer stores no position index: each tick finds it as the
  first path entry equal to the current coordinate.  The path has seven entries and its
  last entry repeats the first.  If the peer is at the coordinate of entry \<open>s\<close>, then
  after \<open>N\<close> ticks it is at the coordinate of entry \<open>(s + N) mod 6\<close>, and that is the index
  the next tick will find.
\<close>

theorem simulator_position_after_ticks:
  assumes "s < length alicePath" and "alice_coord fs = Some (alicePath ! s)"
  shows "alice_coord (ticks N fs) = Some (alicePath ! ((s + N) mod 6)) \<and>
         map_option currentIndex (alice_of (ticks N fs)) = Some (int ((s + N) mod 6))"
proof -
  have s: "s < 7" using assms(1) by (simp add: alicePath_def)
  have c: "alice_coord (ticks N fs) = Some (alicePath ! ((s + N) mod 6))"
    using alice_coord_ticks[OF s assms(2)] .
  then obtain a where a: "alice_of (ticks N fs) = Some a"
    "longitude (location a) = fst (alicePath ! ((s + N) mod 6))"
    "latitude (location a) = snd (alicePath ! ((s + N) mod 6))"
    by (auto simp: alice_coord_def prod_eq_iff)
  have "(s + N) mod 6 < 7" by simp
  from currentIndex_on_path[OF this a(2,3)] a(1) c show ?thesis by simp
qed

text \<open>
  Witness for C6: seven ticks from the initial friends.
\<close>

theorem simulator_position_after_ticks_witness:
  "0 < length alicePath \<and> alice_coord initialFriends = Some (alicePath ! 0) \<and>
   alice_coord (ticks 7 initialFriends) = Some (-122.415, 37.782) \<and>
   alice_coord (ticks 7 initialFriends) = Some (alicePath ! 1) \<and>
   map_option currentIndex (alice_of (ticks 7 initialFriends)) = Some 1"
proof -
  have h1: "0 < length alicePath" by (simp add: alicePath_def)
  have h2: "alice_coord initialFriends = Some (alicePath ! 0)"
    by (simp add: alice_coord_def alice_of_def initialFriends_def alicePath_def)
  show ?thesis
    using h1 h2 simulator_position_after_ticks[OF h1 h2, of 7]
    by (simp add: alicePath_def)
qed

text \<open>
  Counterexample to C6 as stated: from entry 0, after seven ticks, neither the
  coordinate nor the index is the one at \<open>(0 + 7) mod 7\<close>.
\<close>

theorem simulator_index_counterexample:
  "alice_coord (ticks 7 initialFriends) \<noteq> Some (alicePath ! ((0 + 7) mod length alicePath)) \<and>
   map_option currentIndex (alice_of (ticks 7 initialFriends)) \<noteq>
     Some (int ((0 + 7) mod length alicePath))"
  by (simp add: eval_nat_numeral alice_coord_def alice_of_def tick_friends_def nextIndex_def
      currentIndex_def initialFriends_def alicePath_def)

subsection \<open>C7: the active route index\<close>

text \<open>
  Claim C7 says that the active route index is always below \<open>max 1 (length routes)\<close> and
  that every replacement of the routes resets it.  The response callback does reset it,
  but the early return of the effect and the "Clear All Waypoints" button do not: after
  two alternatives arrive, the second is chosen and the waypoints are cleared, the routes
  are empty and the index is still 1.
\<close>

theorem stale_route_index:
  "length (routes (run [Resolve 0 two_routes, SelectRoute 1] loaded_AB)) = 2 \<and>
   selectedRouteIndex (run [Resolve 0 two_routes, SelectRoute 1] loaded_AB) = 1 \<and>
   routes cleared_after_choice = [] \<and>
   selectedRouteIndex cleared_after_choice = 1 \<and>
   \<not> selectedRouteIndex cleared_after_choice < max 1 (length (routes cleared_after_choice))"
  by (simp add: cleared_after_choice_def loaded_AB_def session_defs sample_defs)

subsection \<open>C8: fewer than two waypoints\<close>

text \<open>
  Claim C8.  When the waypoint sequence changes to one with fewer than two entries, the
  effect sets the routes to empty at once and issues no request: the request store does
  not grow, no cleanup is registered, nothing is outstanding, and \<open>fetchRoutes\<close> itself
  returns the empty list without calling the network.
\<close>

theorem short_sequence_no_request:
  "length wps < 2 \<Longrightarrow>
     routes (setWaypoints wps st) = [] \<and>
     length (requests (setWaypoints wps st)) = length (requests st) \<and>
     cleanup (setWaypoints wps st) = None \<and>
     \<not> outstanding_current (setWaypoints wps st) \<and>
     fetchRoutes wps = Return [] \<and> issued (fetchRoutes wps) = []"
  by (simp add: setWaypoints_def route_effect_def effect_body_def run_cleanup_def
      outstanding_current_def fetchRoutes_def split: option.splits)

text \<open>
  Witness for C8: the waypoints change from \<open>[A, B]\<close> to \<open>[A]\<close>.
\<close>

theorem short_sequence_no_request_witness:
  "length [wpA] < 2 \<and>
   routes (setWaypoints [wpA] loaded_AB) = [] \<and>
   length (requests (setWaypoints [wpA] loaded_AB)) = 1 \<and>
   cleanup (setWaypoints [wpA] loaded_AB) = None \<and>
   issued (fetchRoutes [wpA]) = []"
proof -
  have h: "length [wpA] < 2" by simp
  have n: "length (requests loaded_AB) = 1"
    by (simp add: loaded_AB_def session_defs sample_defs)
  show ?thesis
    using h short_sequence_no_request[OF h, of loaded_AB] by (simp add: n)
qed

subsection \<open>C9: the loading flag\<close>

text \<open>
  Claim C9 says that \<open>isLoadingRoute\<close> is true exactly while a request of the current
  generation is outstanding.  The flag is set when a request is issued and reset only by
  the callback of a request that is still current.  After the request for \<open>[A, B]\<close> is
  issued and the waypoints are cleared before its response, nothing is outstanding for
  the current generation and the flag is still set; the late response does not reset it.
\<close>

theorem loading_flag_stuck:
  "isLoadingRoute loaded_AB \<and> outstanding_current loaded_AB \<and>
   waypoints cleared_while_loading = [] \<and>
   isLoadingRoute cleared_while_loading \<and> \<not> outstanding_current cleared_while_loading \<and>
   isLoadingRoute (resolve 0 one_route cleared_while_loading) \<and>
   \<not> outstanding_current (resolve 0 one_route cleared_while_loading)"
  by (simp add: cleared_while_loading_def loaded_AB_def outstanding_current_def
      session_defs sample_defs)

subsection \<open>C10: what a tick changes\<close>

text \<open>
  Claim C10.  A tick changes nothing but \<open>friends\<close>; the list keeps its length; a
  friend whose id is not 1 is unchanged, and a friend with id 1 changes at most in its
  location.
\<close>

theorem tick_frame:
  "tick st = st\<lparr>friends := friends (tick st)\<rparr> \<and>
   length (friends (tick st)) = length (friends st) \<and>
   (\<forall>i < length (friends st).
      friends (tick st) ! i =
        (if friend_id (friends st ! i) = 1
         then (friends st ! i)\<lparr>location := location (friends (tick st) ! i)\<rparr>
         else friends st ! i))"
proof -
  have len: "length (tick_friends (friends st)) = length (friends st)"
    by (simp add: tick_friends_def Let_def split: option.splits)
  have fr: "friends (tick st) = tick_friends (friends st)"
    by (simp add: tick_def)
  have frame: "tick st = st\<lparr>friends := friends (tick st)\<rparr>"
    by (simp add: tick_def)
  have each: "\<forall>i < length (friends st).
      friends (tick st) ! i =
        (if friend_id (friends st ! i) = 1
         then (friends st ! i)\<lparr>location := location (friends (tick st) ! i)\<rparr>
         else friends st ! i)"
  proof (intro allI impI)
    fix i assume "i < length (friends st)"
    then show "friends (tick st) ! i =
        (if friend_id (friends st ! i) = 1
         then (friends st ! i)\<lparr>location := location (friends (tick st) ! i)\<rparr>
         else friends st ! i)"
      unfolding fr by (rule tick_friends_nth)
  qed
  from frame len each show ?thesis unfolding fr by blast
qed

text \<open>
  Witness for C10: one tick of the initial state moves Alice and leaves Bob.
\<close>

theorem tick_frame_witness:
  "1 < length (friends initial_state) \<and> 0 < length (friends initial_state) \<and>
   friend_id (friends initial_state ! 0) = 1 \<and> friend_id (friends initial_state ! 1) \<noteq> 1 \<and>
   friends (tick initial_state) ! 1 = initialFriends ! 1 \<and>
   friends (tick initial_state) ! 0 =
     (initialFriends ! 0)\<lparr>location := \<lparr>longitude = -122.415, latitude = 37.782\<rparr>\<rparr> \<and>
   tick initial_state = initial_state\<lparr>friends := friends (tick initial_state)\<rparr>"
proof -
  have f: "friends initial_state = initialFriends"
    by (simp add: session_defs)
  have l: "location (friends (tick initial_state) ! 0) =
      \<lparr>longitude = -122.415, latitude = 37.782\<rparr>"
    by (simp add: f tick_def tick_friends_def nextIndex_def currentIndex_def
        initialFriends_def alicePath_def)
  note each = tick_frame[of initial_state, THEN conjunct2, THEN conjunct2, rule_format]
  have b: "friends (tick initial_state) ! 1 = initialFriends ! 1"
    using each[of 1] by (simp add: f initialFriends_def)
  have a: "friends (tick initial_state) ! 0 =
     (initialFriends ! 0)\<lparr>location := \<lparr>longitude = -122.415, latitude = 37.782\<rparr>\<rparr>"
    using each[of 0, unfolded l] by (simp add: f initialFriends_def)
  have c: "tick initial_state = initial_state\<lparr>friends := friends (tick initial_state)\<rparr>"
    by (rule tick_frame[of initial_state, THEN conjunct1])
  have d: "1 < length (friends initial_state) \<and> 0 < length (friends initial_state) \<and>
   friend_id (friends initial_state ! 0) = 1 \<and> friend_id (friends initial_state ! 1) \<noteq> 1"
    by (simp add: f initialFriends_def)
  show ?thesis
    apply (intro conjI)
    using d apply blast
    using d apply blast
    using d apply blast
    using d apply blast
    apply (rule b)
    apply (rule a)
    apply (rule c)
    done
qed

end
